theory Spec2Isabelle
  imports Main "HOL-Library.Word"
begin

section \<open>Result carrier (Result.h)\<close>

text \<open>
  \<^verbatim>\<open>template<typename T> struct Result\<close> has three data members:
  \<^verbatim>\<open>std::optional<T> result\<close>, \<^verbatim>\<open>bool resultSuccess\<close> and
  \<^verbatim>\<open>std::optional<std::string> errorMessage\<close>. It is an aggregate, so any combination
  of the three can be built; the named constructors below build only some of them.
\<close>

record 'a Result =
  result :: "'a option"
  resultSuccess :: bool
  errorMessage :: "string option"

text \<open>\<^verbatim>\<open>Result::success(v)\<close> is \<^verbatim>\<open>Result{ v, true, {} }\<close>.\<close>

definition success :: "'a \<Rightarrow> 'a Result" where
  "success v = \<lparr>result = Some v, resultSuccess = True, errorMessage = None\<rparr>"

text \<open>\<^verbatim>\<open>Result::fail(v, message)\<close> is \<^verbatim>\<open>Result{ v, false, message }\<close>.\<close>

definition fail :: "'a \<Rightarrow> string \<Rightarrow> 'a Result" where
  "fail v message = \<lparr>result = Some v, resultSuccess = False, errorMessage = Some message\<rparr>"

text \<open>The overload \<^verbatim>\<open>Result::fail(message)\<close> is \<^verbatim>\<open>Result{ {}, false, message }\<close>.\<close>

definition failMsg :: "string \<Rightarrow> 'a Result" where
  "failMsg message = \<lparr>result = None, resultSuccess = False, errorMessage = Some message\<rparr>"

text \<open>
  \<^verbatim>\<open>successOnPred(result, message, isSuccessPred)\<close>: the predicate is applied to the
  value, and the value is forwarded to \<open>success\<close> or to \<open>fail\<close>.
\<close>

definition successOnPred :: "'a \<Rightarrow> string \<Rightarrow> ('a \<Rightarrow> bool) \<Rightarrow> 'a Result" where
  "successOnPred v message isSuccessPred =
     (if isSuccessPred v then success v else fail v message)"

text \<open>
  \<^verbatim>\<open>successOnPredLazy\<close>: as above, the message computed from the value on the failing
  branch only.
\<close>

definition successOnPredLazy :: "'a \<Rightarrow> ('a \<Rightarrow> string) \<Rightarrow> ('a \<Rightarrow> bool) \<Rightarrow> 'a Result" where
  "successOnPredLazy v getErrorMessage isSuccessPred =
     (if isSuccessPred v then success v else fail v (getErrorMessage v))"

text \<open>
  \<^verbatim>\<open>successOnZero(result, message)\<close> calls \<open>successOnPred\<close> with the lambda
  \<^verbatim>\<open>[](const T & res) { return res == 0; }\<close>. The payload type is one that has a
  zero to compare with.
\<close>

definition successOnZero :: "'a::zero \<Rightarrow> string \<Rightarrow> 'a Result" where
  "successOnZero v message = successOnPred v message (\<lambda>res. res = 0)"

definition successOnZeroLazy :: "'a::zero \<Rightarrow> ('a \<Rightarrow> string) \<Rightarrow> 'a Result" where
  "successOnZeroLazy v getErrorMessage =
     (if v = 0 then success v else fail v (getErrorMessage v))"

definition isSuccess :: "'a Result \<Rightarrow> bool" where
  "isSuccess r = resultSuccess r"

text \<open>\<^verbatim>\<open>operator bool\<close> returns \<^verbatim>\<open>isSuccess()\<close>.\<close>

definition operator_bool :: "'a Result \<Rightarrow> bool" where
  "operator_bool r = isSuccess r"

definition has_value :: "'a Result \<Rightarrow> bool" where
  "has_value r = (result r \<noteq> None)"

text \<open>
  \<^verbatim>\<open>value()\<close> returns \<^verbatim>\<open>result.value()\<close>. On an empty optional
  \<^verbatim>\<open>std::optional::value\<close> raises \<^verbatim>\<open>std::bad_optional_access\<close>; the raise is
  the \<open>Inl\<close> branch here. (The accessor is declared \<^verbatim>\<open>noexcept\<close>, so in the
  program the raise ends in \<^verbatim>\<open>std::terminate\<close>.) The accessor is named
  \<open>value_of\<close> here, its own name being a keyword of Isabelle.
\<close>

datatype value_missing = bad_optional_access

definition value_of :: "'a Result \<Rightarrow> value_missing + 'a" where
  "value_of r = (case result r of None \<Rightarrow> Inl bad_optional_access | Some v \<Rightarrow> Inr v)"

text \<open>
  \<^verbatim>\<open>std::string_view\<close>: a view of characters that are stored elsewhere. \<open>View s\<close>
  is a view of live storage holding the characters \<open>s\<close>. \<open>Dangling n\<close> is a view
  of \<open>n\<close> characters of storage whose lifetime has ended: the view keeps its size, and
  what a read through it finds is not defined.
\<close>

datatype string_view = View string | Dangling nat

text \<open>
  \<^verbatim>\<open>std::optional::value_or\<close> returns the stored value, or the default, by value.
\<close>

definition value_or :: "'a option \<Rightarrow> 'a \<Rightarrow> 'a" where
  "value_or opt default_value = (case opt of None \<Rightarrow> default_value | Some v \<Rightarrow> v)"

text \<open>
  \<^verbatim>\<open>errorStr()\<close> has the return type \<^verbatim>\<open>std::string_view\<close> and the body
  \<^verbatim>\<open>return errorMessage.value_or("(no error message)");\<close>. The operand of the
  \<^verbatim>\<open>return\<close> is a temporary \<^verbatim>\<open>std::string\<close>; the view returned is a view of
  that temporary, which is destroyed when the function returns. So every call returns
  a dangling view, of the size the temporary had.
\<close>

definition errorStr :: "'a Result \<Rightarrow> string_view" where
  "errorStr r = Dangling (length (value_or (errorMessage r) ''(no error message)''))"

section \<open>Data of the listener\<close>

type_synonym byte = "8 word"

text \<open>
  \<^verbatim>\<open>PcapPacket\<close>: one captured frame. The handler reads its \<^verbatim>\<open>data\<close> only.
\<close>

record PcapPacket =
  data :: "byte list"

text \<open>
  \<^verbatim>\<open>JKA::Protocol::RawPacket\<close> is built from a \<^verbatim>\<open>std::string\<close> holding the
  bytes; the string constructor copies every byte of the view it is given.
\<close>

datatype RawPacket = RawPacket "byte list"

text \<open>
  Modelled from the spec: the endpoint and the fields of \<^verbatim>\<open>SimpleUdpPacket\<close>
  (SimpleUdpPacket.h is not among the sources; the handler reads the field
  \<^verbatim>\<open>data\<close> only). The spec's UdpView has a source endpoint, a destination endpoint
  and the payload bytes; an endpoint is an IPv4 address in dotted form and a 16-bit
  UDP port.
\<close>

record Endpoint =
  address :: string
  port :: "16 word"

record SimpleUdpPacket =
  source :: Endpoint
  destination :: Endpoint
  data :: "byte list"

datatype PacketDirection = FROM_CLIENT | FROM_SERVER | NOT_RELATED

text \<open>
  \<^verbatim>\<open>JKAListenerException(step, message)\<close>, as it is constructed: the step is a view
  of a string literal at every call, so it is given by its characters; the message is
  the view the call passes, a literal's or the one \<open>errorStr\<close> returned. And the ways
  a start-up routine can end
  other than by returning: the exception thrown, or \<^verbatim>\<open>std::terminate\<close> after a
  value access on a Result that holds no value.
\<close>

datatype JKAListenerException = JKAListenerException string string_view

datatype failure = Thrown JKAListenerException | Terminated value_missing

text \<open>The step named by the exception an outcome carries, if it carries one.\<close>

fun thrown_step :: "failure + 'a \<Rightarrow> string option" where
  "thrown_step (Inl (Thrown (JKAListenerException step message))) = Some step"
| "thrown_step (Inl (Terminated a)) = None"
| "thrown_step (Inr x) = None"

section \<open>Filter string (JKAListener::createFilterStr)\<close>

text \<open>
  \<^verbatim>\<open>operator<<\<close> on an unsigned integer writes its decimal digits, most significant
  first, with no padding and no separator.
\<close>

definition digit :: "nat \<Rightarrow> char" where
  "digit d = ''0123456789'' ! d"

function decimal :: "nat \<Rightarrow> string" where
  "decimal n = (if n < 10 then [digit n] else decimal (n div 10) @ [digit (n mod 10)])"
  by pat_completeness auto
termination
  by (relation "measure (\<lambda>n. n)") auto

text \<open>Reading a digit string back, for stating that \<open>decimal\<close> is the decimal form.\<close>

definition digit_value :: "char \<Rightarrow> nat" where
  "digit_value c = of_char c - 48"

definition from_decimal :: "string \<Rightarrow> nat" where
  "from_decimal s = foldl (\<lambda>acc c. 10 * acc + digit_value c) 0 s"

text \<open>
  The members \<^verbatim>\<open>serverAddr\<close> and \<^verbatim>\<open>serverPort\<close> are declared in the header, which
  is not among the sources: the address is taken as a string, written as it is, and
  the port as a 16-bit unsigned integer, written in decimal.
\<close>

definition createFilterStr :: "string \<Rightarrow> 16 word \<Rightarrow> string" where
  "createFilterStr serverAddr serverPort =
     ''udp and ((dst '' @ serverAddr
       @ '' and dst port '' @ decimal (unat serverPort) @ '') or (src ''
       @ serverAddr @ '' and src port '' @ decimal (unat serverPort) @ ''))''"

section \<open>Per-frame handler (JKAListener::packetArrived)\<close>

text \<open>
  The handler calls four functions that are not among the sources:
  \<^verbatim>\<open>SimpleUdpPacket::fromRawIp\<close>, the member \<^verbatim>\<open>getPacketDirection\<close> and the two
  members \<^verbatim>\<open>packetFromClient\<close> and \<^verbatim>\<open>packetFromServer\<close>. They are parameters
  here. A sink may change any state \<open>'s\<close> of the program and may raise \<open>'e\<close>.
\<close>

record ('s, 'e) JKAListener =
  fromRawIp :: "byte list \<Rightarrow> SimpleUdpPacket option"
  getPacketDirection :: "SimpleUdpPacket \<Rightarrow> PacketDirection"
  packetFromClient :: "RawPacket \<Rightarrow> 's \<Rightarrow> 'e + 's"
  packetFromServer :: "RawPacket \<Rightarrow> 's \<Rightarrow> 'e + 's"

definition packetArrived :: "('s, 'e) JKAListener \<Rightarrow> PcapPacket \<Rightarrow> 's \<Rightarrow> 'e + 's" where
  "packetArrived L packet s =
     (case fromRawIp L (PcapPacket.data packet) of
        None \<Rightarrow> Inr s
      | Some udp \<Rightarrow>
          (case getPacketDirection L udp of
             FROM_CLIENT \<Rightarrow> packetFromClient L (RawPacket (SimpleUdpPacket.data udp)) s
           | FROM_SERVER \<Rightarrow> packetFromServer L (RawPacket (SimpleUdpPacket.data udp)) s
           | NOT_RELATED \<Rightarrow> Inr s))"

text \<open>
  To count sink invocations the sinks are replaced by two that only append the call
  to a log: \<open>recording L\<close> is the listener \<open>L\<close> with such sinks, its state the log.
\<close>

datatype sink_call = ClientSink RawPacket | ServerSink RawPacket

definition recording :: "('s, 'e) JKAListener \<Rightarrow> (sink_call list, 'e) JKAListener" where
  "recording L =
     \<lparr>fromRawIp = fromRawIp L,
      getPacketDirection = getPacketDirection L,
      packetFromClient = (\<lambda>pkt log. Inr (log @ [ClientSink pkt])),
      packetFromServer = (\<lambda>pkt log. Inr (log @ [ServerSink pkt]))\<rparr>"

section \<open>Start-up steps (JKAListener::throwOnResultFail, JKAListener::trySetKnownDatalink)\<close>

text \<open>
  \<^verbatim>\<open>throwOnResultFail(step, res)\<close>: if \<^verbatim>\<open>!res\<close>, throw
  \<^verbatim>\<open>JKAListenerException(step, res.errorStr())\<close>; otherwise return.
\<close>

definition throwOnResultFail :: "string \<Rightarrow> 'a Result \<Rightarrow> failure + unit" where
  "throwOnResultFail step res =
     (if \<not> operator_bool res then Inl (Thrown (JKAListenerException step (errorStr res)))
      else Inr ())"

text \<open>
  The capture adapter \<^verbatim>\<open>Pcap\<close> is not among the sources. The four operations
  that \<^verbatim>\<open>trySetKnownDatalink\<close> calls are parameters: functions of the adapter's state
  \<open>'p\<close>, the three queries reading it and \<^verbatim>\<open>setDatalink\<close> returning its Result with
  the state it leaves.
\<close>

record 'p Pcap =
  getDatalink :: "'p \<Rightarrow> int"
  isDatalinkKnown :: "'p \<Rightarrow> int \<Rightarrow> bool"
  getSupportedDatalinks :: "'p \<Rightarrow> int list Result"
  setDatalink :: "int \<Rightarrow> 'p \<Rightarrow> int Result \<times> 'p"

text \<open>
  The \<^verbatim>\<open>for\<close> loop of \<^verbatim>\<open>trySetKnownDatalink\<close> over the supported datalinks, from
  \<^verbatim>\<open>begin()\<close> to \<^verbatim>\<open>end()\<close>: the first known one is installed and the function
  returns (or throws, when installing fails); after the last one the function throws.
\<close>

fun setFirstKnown :: "'p Pcap \<Rightarrow> 'p \<Rightarrow> int list \<Rightarrow> failure + 'p" where
  "setFirstKnown P p [] =
     Inl (Thrown (JKAListenerException ''getting supported datalinks''
            (View ''no supported datalinks'')))"
| "setFirstKnown P p (d # ds) =
     (if isDatalinkKnown P p d then
        (case setDatalink P d p of
           (res, p') \<Rightarrow>
             (case throwOnResultFail ''setting supported datalink'' res of
                Inl e \<Rightarrow> Inl e
              | Inr u \<Rightarrow> Inr p'))
      else setFirstKnown P p ds)"

text \<open>
  \<^verbatim>\<open>supportedDatalinks->begin()\<close> goes through \<^verbatim>\<open>operator->\<close>, that is through
  \<^verbatim>\<open>value()\<close>.
\<close>

definition trySetKnownDatalink :: "'p Pcap \<Rightarrow> 'p \<Rightarrow> failure + 'p" where
  "trySetKnownDatalink P p =
     (if isDatalinkKnown P p (getDatalink P p) then Inr p
      else
        (let supportedDatalinks = getSupportedDatalinks P p in
         if \<not> operator_bool supportedDatalinks then
           Inl (Thrown (JKAListenerException ''getting supported datalinks''
                  (errorStr supportedDatalinks)))
         else
           (case value_of supportedDatalinks of
              Inl a \<Rightarrow> Inl (Terminated a)
            | Inr ds \<Rightarrow> setFirstKnown P p ds)))"

section \<open>Parts modelled from the spec\<close>

text \<open>
  Modelled from the spec: the member \<^verbatim>\<open>getPacketDirection\<close> (declared in
  JKAListener.h, which is not among the sources). The spec's Direction function:
  FROM_SERVER if the source equals the server endpoint, FROM_CLIENT if the destination
  equals it, NOT_RELATED otherwise, and NOT_RELATED when both equal it.
\<close>

definition Direction :: "Endpoint \<Rightarrow> SimpleUdpPacket \<Rightarrow> PacketDirection" where
  \<comment> \<open>Modelled from the spec: \<^verbatim>\<open>getPacketDirection\<close>, missing from the sources.\<close>
  "Direction server udp =
     (if source udp = server \<and> destination udp = server then NOT_RELATED
      else if source udp = server then FROM_SERVER
      else if destination udp = server then FROM_CLIENT
      else NOT_RELATED)"

text \<open>
  Modelled from the spec: the UDP/IP framer \<^verbatim>\<open>SimpleUdpPacket::fromRawIp\<close>
  (not among the sources). The span starts at an IPv4 header. The framer rejects a
  version other than 4, locates the UDP header by the IHL field, rejects a protocol
  other than UDP (17), rejects a fragment (MF set or a fragment offset other than 0),
  and rejects a declared UDP length that does not fit the span; the payload is the
  bytes after the 8-byte UDP header up to the declared length. Checksums are not
  looked at.
\<close>

definition be16 :: "byte \<Rightarrow> byte \<Rightarrow> nat" where
  "be16 hi lo = 256 * unat hi + unat lo"

definition dotted :: "byte list \<Rightarrow> string" where
  "dotted a =
     decimal (unat (a ! 0)) @ ''.'' @ decimal (unat (a ! 1)) @ ''.''
       @ decimal (unat (a ! 2)) @ ''.'' @ decimal (unat (a ! 3))"

definition SimpleUdpPacket_fromRawIp :: "byte list \<Rightarrow> SimpleUdpPacket option" where
  \<comment> \<open>Modelled from the spec: \<^verbatim>\<open>SimpleUdpPacket::fromRawIp\<close>, missing from the sources.\<close>
  "SimpleUdpPacket_fromRawIp bs =
     (if length bs < 20 then None
      else
        (let version = unat (bs ! 0) div 16;
             ihl = 4 * (unat (bs ! 0) mod 16)
         in
         if version \<noteq> 4 then None
         else if ihl < 20 \<or> length bs < ihl + 8 then None
         else if unat (bs ! 9) \<noteq> 17 then None
         else if unat (bs ! 6) mod 64 \<noteq> 0 \<or> unat (bs ! 7) \<noteq> 0 then None
         else
           (let udpLength = be16 (bs ! (ihl + 4)) (bs ! (ihl + 5)) in
            if udpLength < 8 \<or> length bs < ihl + udpLength then None
            else
              Some \<lparr>source =
                      \<lparr>address = dotted (take 4 (drop 12 bs)),
                       port = of_nat (be16 (bs ! ihl) (bs ! (ihl + 1)))\<rparr>,
                    destination =
                      \<lparr>address = dotted (take 4 (drop 16 bs)),
                       port = of_nat (be16 (bs ! (ihl + 2)) (bs ! (ihl + 3)))\<rparr>,
                    data = take (udpLength - 8) (drop (ihl + 8) bs)\<rparr>)))"

section \<open>Example inputs\<close>

text \<open>
  The spec's first scenario: the server endpoint is 192.168.1.10:29070, and a client at
  10.0.0.5:50000 sends it the 13 payload bytes FF FF FF FF "getstatus". The frame is the
  IPv4 header (20 bytes, no options, DF set), the UDP header (length 21) and the payload.
\<close>

definition scenario_server :: Endpoint where
  "scenario_server = \<lparr>address = ''192.168.1.10'', port = 29070\<rparr>"

definition client_frame :: "byte list" where
  "client_frame =
     [0x45, 0x00, 0x00, 0x29, 0x00, 0x00, 0x40, 0x00, 0x40, 0x11, 0x00, 0x00,
      0x0A, 0x00, 0x00, 0x05, 0xC0, 0xA8, 0x01, 0x0A,
      0xC3, 0x50, 0x71, 0x8E, 0x00, 0x15, 0x00, 0x00,
      0xFF, 0xFF, 0xFF, 0xFF, 0x67, 0x65, 0x74, 0x73, 0x74, 0x61, 0x74, 0x75, 0x73]"

text \<open>The fourth scenario: the same frame with MF set in the IPv4 header.\<close>

definition fragment_frame :: "byte list" where
  "fragment_frame =
     [0x45, 0x00, 0x00, 0x29, 0x00, 0x00, 0x20, 0x00, 0x40, 0x11, 0x00, 0x00,
      0x0A, 0x00, 0x00, 0x05, 0xC0, 0xA8, 0x01, 0x0A,
      0xC3, 0x50, 0x71, 0x8E, 0x00, 0x15, 0x00, 0x00,
      0xFF, 0xFF, 0xFF, 0xFF, 0x67, 0x65, 0x74, 0x73, 0x74, 0x61, 0x74, 0x75, 0x73]"

text \<open>
  A listener for the examples: the framer and the Direction function as modelled from
  the spec, and two sinks that count their calls (client calls first).
\<close>

definition counting_listener :: "(nat \<times> nat, unit) JKAListener" where
  "counting_listener =
     \<lparr>fromRawIp = SimpleUdpPacket_fromRawIp,
      getPacketDirection = Direction scenario_server,
      packetFromClient = (\<lambda>pkt (c, s). Inr (c + 1, s)),
      packetFromServer = (\<lambda>pkt (c, s). Inr (c, s + 1))\<rparr>"

text \<open>
  An adapter for the examples. Its state is the installed datalink type, the types 1
  and 12 are the known ones, and the Results it hands out are given: of the
  supported-list query and of installing a type.
\<close>

definition testPcap :: "int list Result \<Rightarrow> (int \<Rightarrow> int Result) \<Rightarrow> int Pcap" where
  "testPcap supported installed =
     \<lparr>getDatalink = (\<lambda>p. p),
      isDatalinkKnown = (\<lambda>p d. d = 1 \<or> d = 12),
      getSupportedDatalinks = (\<lambda>p. supported),
      setDatalink = (\<lambda>d p. (installed d, if isSuccess (installed d) then d else p))\<rparr>"

section \<open>Properties of the filter string\<close>

declare decimal.simps [simp del]

lemma below_ten:
  "(d::nat) < 10 \<Longrightarrow>
     d = 0 \<or> d = 1 \<or> d = 2 \<or> d = 3 \<or> d = 4 \<or> d = 5 \<or> d = 6 \<or> d = 7 \<or> d = 8 \<or> d = 9"
  by arith

lemma digit_value_digit: "d < 10 \<Longrightarrow> digit_value (digit d) = d"
  using below_ten [of d] by (auto simp: digit_def digit_value_def)

lemma digit_in_digits: "d < 10 \<Longrightarrow> digit d \<in> set ''0123456789''"
  using below_ten [of d] by (auto simp: digit_def)

lemma digit_zero_iff: "d < 10 \<Longrightarrow> digit d = CHR ''0'' \<longleftrightarrow> d = 0"
  using below_ten [of d] by (auto simp: digit_def)

lemma from_decimal_snoc: "from_decimal (s @ [c]) = 10 * from_decimal s + digit_value c"
  by (simp add: from_decimal_def)

lemma decimal_nonempty: "decimal n \<noteq> []"
  by (subst decimal.simps) simp

lemma from_decimal_decimal: "from_decimal (decimal n) = n"
proof (induction n rule: decimal.induct)
  case (1 n)
  show ?case
  proof (cases "n < 10")
    case True
    then show ?thesis
      by (subst decimal.simps) (simp add: from_decimal_def digit_value_digit)
  next
    case False
    with 1 have "from_decimal (decimal (n div 10)) = n div 10" by simp
    with False show ?thesis
      by (subst decimal.simps) (simp add: from_decimal_snoc digit_value_digit)
  qed
qed

lemma decimal_digits: "set (decimal n) \<subseteq> set ''0123456789''"
proof (induction n rule: decimal.induct)
  case (1 n)
  show ?case
  proof (cases "n < 10")
    case True
    then show ?thesis
      using digit_in_digits [of n] by (subst decimal.simps) simp
  next
    case False
    with 1 have "set (decimal (n div 10)) \<subseteq> set ''0123456789''" by simp
    moreover have "digit (n mod 10) \<in> set ''0123456789''"
      by (rule digit_in_digits) simp
    ultimately show ?thesis
      using False by (subst decimal.simps) simp
  qed
qed

lemma decimal_leading_zero: "hd (decimal n) = CHR ''0'' \<longleftrightarrow> n = 0"
proof (induction n rule: decimal.induct)
  case (1 n)
  show ?case
  proof (cases "n < 10")
    case True
    then show ?thesis
      by (subst decimal.simps) (simp add: digit_zero_iff)
  next
    case False
    with 1 have "hd (decimal (n div 10)) = CHR ''0'' \<longleftrightarrow> n div 10 = 0" by simp
    with False show ?thesis
      by (subst decimal.simps) (simp add: decimal_nonempty)
  qed
qed

text \<open>
  C4. For every address string \<open>A\<close> and port \<open>P\<close> the filter string is
  "udp and ((dst A and dst port P) or (src A and src port P))", the address as given
  and the port in decimal: the digits written read back as the port, they are digits
  only, and the first is 0 only for port 0. For 1.2.3.4:29070 it is the string of the
  spec's fifth scenario.
\<close>

theorem createFilterStr_exact:
  "createFilterStr A P =
     ''udp and ((dst '' @ A @ '' and dst port '' @ decimal (unat P)
       @ '') or (src '' @ A @ '' and src port '' @ decimal (unat P) @ ''))''
   \<and> from_decimal (decimal (unat P)) = unat P
   \<and> set (decimal (unat P)) \<subseteq> set ''0123456789''
   \<and> (hd (decimal (unat P)) = CHR ''0'' \<longleftrightarrow> P = 0)
   \<and> createFilterStr ''1.2.3.4'' 29070 =
       ''udp and ((dst 1.2.3.4 and dst port 29070) or (src 1.2.3.4 and src port 29070))''"
proof -
  have "createFilterStr ''1.2.3.4'' 29070 =
       ''udp and ((dst 1.2.3.4 and dst port 29070) or (src 1.2.3.4 and src port 29070))''"
    by (simp add: createFilterStr_def decimal.simps digit_def)
  moreover have "hd (decimal (unat P)) = CHR ''0'' \<longleftrightarrow> P = 0"
    by (simp add: decimal_leading_zero unat_eq_0)
  ultimately show ?thesis
    using decimal_digits [of "unat P"]
    by (simp add: createFilterStr_def from_decimal_decimal)
qed

section \<open>Properties of the Direction function\<close>

text \<open>
  C1. For every server endpoint and every parsed packet, \<open>Direction\<close> is one of the
  three values: FROM_SERVER exactly when the source is the server endpoint and the
  destination is not, FROM_CLIENT exactly when the destination is and the source is
  not, NOT_RELATED exactly when both are or neither is.
\<close>

theorem Direction_total:
  "Direction server udp \<in> {FROM_CLIENT, FROM_SERVER, NOT_RELATED}
   \<and> (Direction server udp = FROM_SERVER \<longleftrightarrow> source udp = server \<and> destination udp \<noteq> server)
   \<and> (Direction server udp = FROM_CLIENT \<longleftrightarrow> destination udp = server \<and> source udp \<noteq> server)
   \<and> (Direction server udp = NOT_RELATED \<longleftrightarrow> (source udp = server \<longleftrightarrow> destination udp = server))"
  by (simp add: Direction_def)

section \<open>Properties of the per-frame handler\<close>

lemma client_frame_parsed:
  "SimpleUdpPacket_fromRawIp client_frame =
     Some \<lparr>source = \<lparr>address = ''10.0.0.5'', port = 50000\<rparr>,
           destination = \<lparr>address = ''192.168.1.10'', port = 29070\<rparr>,
           data = [0xFF, 0xFF, 0xFF, 0xFF, 0x67, 0x65, 0x74, 0x73, 0x74, 0x61, 0x74, 0x75, 0x73]\<rparr>"
  by (simp add: SimpleUdpPacket_fromRawIp_def client_frame_def be16_def dotted_def
      decimal.simps digit_def Let_def)

lemma fragment_frame_rejected: "SimpleUdpPacket_fromRawIp fragment_frame = None"
  by (simp add: SimpleUdpPacket_fromRawIp_def fragment_frame_def Let_def)

text \<open>
  C2. When the framer parses the frame into \<open>udp\<close>, the handler does what the sink
  of the packet's direction does on a RawPacket of the payload bytes, and nothing else.
  With the recording sinks the log grows by one call of the client sink on FROM_CLIENT,
  by one call of the server sink on FROM_SERVER, and by nothing on NOT_RELATED: by at
  most one call in all.
\<close>

theorem packetArrived_dispatch:
  assumes "fromRawIp L (PcapPacket.data packet) = Some udp"
  shows "packetArrived L packet s =
           (case getPacketDirection L udp of
              FROM_CLIENT \<Rightarrow> packetFromClient L (RawPacket (SimpleUdpPacket.data udp)) s
            | FROM_SERVER \<Rightarrow> packetFromServer L (RawPacket (SimpleUdpPacket.data udp)) s
            | NOT_RELATED \<Rightarrow> Inr s)
         \<and> packetArrived (recording L) packet log =
           Inr (log @
             (case getPacketDirection L udp of
                FROM_CLIENT \<Rightarrow> [ClientSink (RawPacket (SimpleUdpPacket.data udp))]
              | FROM_SERVER \<Rightarrow> [ServerSink (RawPacket (SimpleUdpPacket.data udp))]
              | NOT_RELATED \<Rightarrow> []))
         \<and> (\<exists>calls. packetArrived (recording L) packet log = Inr (log @ calls)
               \<and> length calls \<le> 1)"
proof -
  let ?calls = "case getPacketDirection L udp of
                  FROM_CLIENT \<Rightarrow> [ClientSink (RawPacket (SimpleUdpPacket.data udp))]
                | FROM_SERVER \<Rightarrow> [ServerSink (RawPacket (SimpleUdpPacket.data udp))]
                | NOT_RELATED \<Rightarrow> []"
  have run: "packetArrived L packet s =
           (case getPacketDirection L udp of
              FROM_CLIENT \<Rightarrow> packetFromClient L (RawPacket (SimpleUdpPacket.data udp)) s
            | FROM_SERVER \<Rightarrow> packetFromServer L (RawPacket (SimpleUdpPacket.data udp)) s
            | NOT_RELATED \<Rightarrow> Inr s)"
    using assms by (simp add: packetArrived_def)
  have logged: "packetArrived (recording L) packet log = Inr (log @ ?calls)"
    using assms
    by (simp add: packetArrived_def recording_def split: PacketDirection.splits)
  have "length ?calls \<le> 1"
    by (cases "getPacketDirection L udp") simp_all
  with run logged show ?thesis by blast
qed

theorem packetArrived_dispatch_witness:
  "fromRawIp counting_listener (PcapPacket.data \<lparr>PcapPacket.data = client_frame\<rparr>) =
     Some \<lparr>source = \<lparr>address = ''10.0.0.5'', port = 50000\<rparr>,
           destination = \<lparr>address = ''192.168.1.10'', port = 29070\<rparr>,
           data = [0xFF, 0xFF, 0xFF, 0xFF, 0x67, 0x65, 0x74, 0x73, 0x74, 0x61, 0x74, 0x75, 0x73]\<rparr>
   \<and> packetArrived counting_listener \<lparr>PcapPacket.data = client_frame\<rparr> (0, 0) = Inr (1, 0)
   \<and> packetArrived (recording counting_listener) \<lparr>PcapPacket.data = client_frame\<rparr> [] =
       Inr [ClientSink (RawPacket [0xFF, 0xFF, 0xFF, 0xFF, 0x67, 0x65, 0x74, 0x73, 0x74, 0x61, 0x74, 0x75, 0x73])]"
proof -
  have parsed: "fromRawIp counting_listener (PcapPacket.data \<lparr>PcapPacket.data = client_frame\<rparr>) =
     Some \<lparr>source = \<lparr>address = ''10.0.0.5'', port = 50000\<rparr>,
           destination = \<lparr>address = ''192.168.1.10'', port = 29070\<rparr>,
           data = [0xFF, 0xFF, 0xFF, 0xFF, 0x67, 0x65, 0x74, 0x73, 0x74, 0x61, 0x74, 0x75, 0x73]\<rparr>"
    by (simp add: counting_listener_def client_frame_parsed)
  from packetArrived_dispatch [OF parsed, of "(0, 0)" "[]"]
  have "packetArrived counting_listener \<lparr>PcapPacket.data = client_frame\<rparr> (0, 0) = Inr (1, 0)"
    and "packetArrived (recording counting_listener) \<lparr>PcapPacket.data = client_frame\<rparr> [] =
       Inr [ClientSink (RawPacket [0xFF, 0xFF, 0xFF, 0xFF, 0x67, 0x65, 0x74, 0x73, 0x74, 0x61, 0x74, 0x75, 0x73])]"
    by (simp_all add: counting_listener_def Direction_def scenario_server_def)
  with parsed show ?thesis by blast
qed

text \<open>
  C3. When the framer returns nothing for the frame, the handler returns normally and
  leaves the state as it was, whatever the sinks are; with the recording sinks the log
  is left as it was, so no sink is called.
\<close>

theorem packetArrived_drop_unparsed:
  assumes "fromRawIp L (PcapPacket.data packet) = None"
  shows "packetArrived L packet s = Inr s
         \<and> packetArrived (recording L) packet log = Inr log"
  using assms by (simp add: packetArrived_def recording_def)

theorem packetArrived_drop_unparsed_witness:
  "fromRawIp counting_listener (PcapPacket.data \<lparr>PcapPacket.data = fragment_frame\<rparr>) = None
   \<and> packetArrived counting_listener \<lparr>PcapPacket.data = fragment_frame\<rparr> (0, 0) = Inr (0, 0)
   \<and> packetArrived (recording counting_listener) \<lparr>PcapPacket.data = fragment_frame\<rparr> [] = Inr []"
proof -
  have unparsed: "fromRawIp counting_listener (PcapPacket.data \<lparr>PcapPacket.data = fragment_frame\<rparr>) = None"
    by (simp add: counting_listener_def fragment_frame_rejected)
  from packetArrived_drop_unparsed [OF unparsed, of "(0, 0)" "[]"] unparsed
  show ?thesis by blast
qed

section \<open>Properties of the start-up steps\<close>

lemma throwOnResultFail_eq:
  "throwOnResultFail step res =
     (if isSuccess res then Inr ()
      else Inl (Thrown (JKAListenerException step (errorStr res))))"
  by (simp add: throwOnResultFail_def operator_bool_def)

lemma setFirstKnown_find:
  "setFirstKnown P p ds =
     (case find (isDatalinkKnown P p) ds of
        None \<Rightarrow>
          Inl (Thrown (JKAListenerException ''getting supported datalinks''
                 (View ''no supported datalinks'')))
      | Some d \<Rightarrow>
          (if isSuccess (fst (setDatalink P d p)) then Inr (snd (setDatalink P d p))
           else Inl (Thrown (JKAListenerException ''setting supported datalink''
                       (errorStr (fst (setDatalink P d p)))))))"
  by (induction ds) (simp_all add: throwOnResultFail_eq split: prod.splits)

lemma trySetKnownDatalink_listed:
  assumes "\<not> isDatalinkKnown P p (getDatalink P p)"
    and "isSuccess (getSupportedDatalinks P p)"
    and "result (getSupportedDatalinks P p) = Some ds"
  shows "trySetKnownDatalink P p = setFirstKnown P p ds"
  using assms by (simp add: trySetKnownDatalink_def operator_bool_def value_of_def Let_def)

lemma trySetKnownDatalink_query_failed:
  assumes "\<not> isDatalinkKnown P p (getDatalink P p)"
    and "\<not> isSuccess (getSupportedDatalinks P p)"
  shows "trySetKnownDatalink P p =
           Inl (Thrown (JKAListenerException ''getting supported datalinks''
                  (errorStr (getSupportedDatalinks P p))))"
  using assms by (simp add: trySetKnownDatalink_def operator_bool_def Let_def)

text \<open>
  C5, as amended. If the installed datalink type is known, \<open>trySetKnownDatalink\<close>
  returns with the adapter unchanged. Otherwise, when the supported-list query succeeds
  with the list \<open>ds\<close>, it takes the first known type of \<open>ds\<close> and installs it: it
  returns when the installation succeeds, and throws at the step "setting supported
  datalink" when it fails; when no type of \<open>ds\<close> is known it throws at the step
  "getting supported datalinks" with the diagnostic "no supported datalinks". When the
  query fails it throws at the step "getting supported datalinks". What the exception
  of a failed installation or of a failed query holds as its diagnostic is not part of
  the statement.
\<close>

theorem trySetKnownDatalink_spec:
  "(isDatalinkKnown P p (getDatalink P p) \<longrightarrow> trySetKnownDatalink P p = Inr p)
   \<and> (\<not> isDatalinkKnown P p (getDatalink P p)
        \<and> isSuccess (getSupportedDatalinks P p)
        \<and> result (getSupportedDatalinks P p) = Some ds
        \<and> find (isDatalinkKnown P p) ds = Some d
        \<and> isSuccess (fst (setDatalink P d p))
      \<longrightarrow> trySetKnownDatalink P p = Inr (snd (setDatalink P d p)))
   \<and> (\<not> isDatalinkKnown P p (getDatalink P p)
        \<and> isSuccess (getSupportedDatalinks P p)
        \<and> result (getSupportedDatalinks P p) = Some ds
        \<and> find (isDatalinkKnown P p) ds = Some d
        \<and> \<not> isSuccess (fst (setDatalink P d p))
      \<longrightarrow> thrown_step (trySetKnownDatalink P p) = Some ''setting supported datalink'')
   \<and> (\<not> isDatalinkKnown P p (getDatalink P p)
        \<and> isSuccess (getSupportedDatalinks P p)
        \<and> result (getSupportedDatalinks P p) = Some ds
        \<and> find (isDatalinkKnown P p) ds = None
      \<longrightarrow> trySetKnownDatalink P p =
            Inl (Thrown (JKAListenerException ''getting supported datalinks''
                   (View ''no supported datalinks''))))
   \<and> (\<not> isDatalinkKnown P p (getDatalink P p)
        \<and> \<not> isSuccess (getSupportedDatalinks P p)
      \<longrightarrow> thrown_step (trySetKnownDatalink P p) = Some ''getting supported datalinks'')"
proof -
  have known: "isDatalinkKnown P p (getDatalink P p) \<longrightarrow> trySetKnownDatalink P p = Inr p"
    by (simp add: trySetKnownDatalink_def)
  show ?thesis
    using known
    by (simp add: trySetKnownDatalink_listed trySetKnownDatalink_query_failed setFirstKnown_find)
qed

theorem trySetKnownDatalink_spec_witness:
  "trySetKnownDatalink (testPcap (success [105, 12, 1]) (\<lambda>d. success 0)) 1 = Inr 1
   \<and> trySetKnownDatalink (testPcap (success [105, 12, 1]) (\<lambda>d. success 0)) 105 = Inr 12
   \<and> thrown_step
        (trySetKnownDatalink (testPcap (success [105, 12, 1]) (\<lambda>d. fail (-1) ''not settable'')) 105)
       = Some ''setting supported datalink''
   \<and> trySetKnownDatalink (testPcap (success [105, 9]) (\<lambda>d. success 0)) 105
       = Inl (Thrown (JKAListenerException ''getting supported datalinks''
                (View ''no supported datalinks'')))
   \<and> thrown_step
        (trySetKnownDatalink (testPcap (failMsg ''query failed'') (\<lambda>d. success 0)) 105)
       = Some ''getting supported datalinks''"
  using
    trySetKnownDatalink_spec [of "testPcap (success [105, 12, 1]) (\<lambda>d. success 0)" 1]
    trySetKnownDatalink_spec [of "testPcap (success [105, 12, 1]) (\<lambda>d. success 0)" 105 "[105, 12, 1]" 12]
    trySetKnownDatalink_spec [of "testPcap (success [105, 12, 1]) (\<lambda>d. fail (-1) ''not settable'')" 105 "[105, 12, 1]" 12]
    trySetKnownDatalink_spec [of "testPcap (success [105, 9]) (\<lambda>d. success 0)" 105 "[105, 9]"]
    trySetKnownDatalink_spec [of "testPcap (failMsg ''query failed'') (\<lambda>d. success 0)" 105]
  by (simp add: testPcap_def success_def fail_def failMsg_def isSuccess_def)

text \<open>
  C5 with "installs the first known type, succeeding" does not hold where the
  installation fails: the installed type 105 is not known, the query succeeds, the
  listed type 12 is known, and the procedure throws at the step "setting supported
  datalink".
\<close>

theorem trySetKnownDatalink_install_fails:
  "\<not> isDatalinkKnown (testPcap (success [105, 12, 1]) (\<lambda>d. fail (-1) ''not settable'')) 105
        (getDatalink (testPcap (success [105, 12, 1]) (\<lambda>d. fail (-1) ''not settable'')) 105)
   \<and> getSupportedDatalinks (testPcap (success [105, 12, 1]) (\<lambda>d. fail (-1) ''not settable'')) 105
       = success [105, 12, 1]
   \<and> isDatalinkKnown (testPcap (success [105, 12, 1]) (\<lambda>d. fail (-1) ''not settable'')) 105 12
   \<and> thrown_step
        (trySetKnownDatalink (testPcap (success [105, 12, 1]) (\<lambda>d. fail (-1) ''not settable'')) 105)
       = Some ''setting supported datalink''"
  by (simp add: testPcap_def trySetKnownDatalink_def throwOnResultFail_def operator_bool_def
      value_of_def success_def fail_def isSuccess_def Let_def)

text \<open>
  C9. A failing start-up step throws a JKAListenerException with the name of the step,
  but the diagnostic it is constructed with is the view that \<open>errorStr\<close> returned,
  which is dangling: the exception does not hold the text of the underlying diagnostic.
  So for a failed installation of a datalink whose Result holds "not settable", and for
  a failed supported-list query whose Result holds "query failed": the message is a
  view of 12 characters of storage that is no longer live.
\<close>

theorem startup_diagnostic_dangling:
  "throwOnResultFail ''setting supported datalink'' (fail (-1 :: int) ''not settable'')
     = Inl (Thrown (JKAListenerException ''setting supported datalink'' (Dangling 12)))
   \<and> trySetKnownDatalink (testPcap (success [105, 12, 1]) (\<lambda>d. fail (-1) ''not settable'')) 105
     = Inl (Thrown (JKAListenerException ''setting supported datalink'' (Dangling 12)))
   \<and> trySetKnownDatalink (testPcap (failMsg ''query failed'') (\<lambda>d. success 0)) 105
     = Inl (Thrown (JKAListenerException ''getting supported datalinks'' (Dangling 12)))"
  by (simp add: testPcap_def trySetKnownDatalink_def throwOnResultFail_def operator_bool_def
      value_of_def success_def fail_def failMsg_def isSuccess_def errorStr_def value_or_def
      Let_def)

section \<open>Properties of the result carrier\<close>

text \<open>
  C6. For every value \<open>v\<close> and message \<open>msg\<close>: \<open>success v\<close> is a success,
  \<open>failMsg msg\<close> and \<open>fail v msg\<close> are not, the value of \<open>fail v msg\<close> is \<open>v\<close>, and
  the boolean conversion of any Result \<open>r\<close> equals \<open>isSuccess r\<close>.
\<close>

theorem Result_laws:
  "isSuccess (success v) = True
   \<and> isSuccess (failMsg msg :: 'a Result) = False
   \<and> isSuccess (fail v msg) = False
   \<and> value_of (fail v msg) = Inr v
   \<and> operator_bool r = isSuccess r"
  by (simp add: isSuccess_def success_def failMsg_def fail_def value_of_def operator_bool_def)

text \<open>
  C7. \<open>errorStr\<close> never returns a view of live characters: for a Result made by
  \<open>success\<close>, which stores no message, it returns a dangling view of the 18 characters
  that the temporary string "(no error message)" had, so the caller does not read the
  sentinel through it.
\<close>

theorem errorStr_dangling:
  "errorStr (success (0::int)) = Dangling 18
   \<and> errorStr (success (0::int)) \<noteq> View ''no error message''
   \<and> errorStr (success (0::int)) \<noteq> View ''(no error message)''
   \<and> errorStr r \<noteq> View s"
  by (simp add: errorStr_def success_def value_or_def)

text \<open>
  C8. \<open>successOnPred v msg pred\<close> is \<open>success v\<close> when \<open>pred v\<close> holds and
  \<open>fail v msg\<close> otherwise; \<open>successOnZero z msg\<close> is \<open>successOnPred\<close> with the
  predicate "equals 0", so it is \<open>success z\<close> exactly when \<open>z = 0\<close> and \<open>fail z msg\<close>
  exactly when \<open>z \<noteq> 0\<close>.
\<close>

theorem successOnPred_spec:
  "successOnPred v msg pred = (if pred v then success v else fail v msg)
   \<and> successOnZero z msg = successOnPred z msg (\<lambda>res. res = 0)
   \<and> successOnZero z msg = (if z = 0 then success z else fail z msg)
   \<and> (successOnZero z msg = success z \<longleftrightarrow> z = 0)
   \<and> (successOnZero z msg = fail z msg \<longleftrightarrow> z \<noteq> 0)"
  by (simp add: successOnPred_def successOnZero_def success_def fail_def)

text \<open>
  C10. \<open>failMsg msg\<close> holds no value, \<open>success v\<close> and \<open>fail v msg\<close> hold \<open>v\<close>.
  On a Result that holds a value \<open>value_of\<close> returns it; on one that holds none it
  takes the error branch of the optional.
\<close>

theorem has_value_spec:
  "has_value (failMsg msg :: 'a Result) = False
   \<and> has_value (success v) = True
   \<and> has_value (fail v msg) = True
   \<and> value_of (success v) = Inr v
   \<and> value_of (fail v msg) = Inr v
   \<and> value_of (failMsg msg :: 'a Result) = Inl bad_optional_access
   \<and> (has_value r \<longrightarrow> (\<exists>x. result r = Some x \<and> value_of r = Inr x))
   \<and> (\<not> has_value r \<longrightarrow> value_of r = Inl bad_optional_access)"
  by (auto simp: has_value_def failMsg_def success_def fail_def value_of_def)

theorem has_value_spec_witness:
  "has_value (fail (-1 :: int) ''device busy'')
   \<and> value_of (fail (-1 :: int) ''device busy'') = Inr (-1)
   \<and> \<not> has_value (failMsg ''device busy'' :: int Result)
   \<and> value_of (failMsg ''device busy'' :: int Result) = Inl bad_optional_access"
  using has_value_spec [of "''device busy''" "-1 :: int" "fail (-1 :: int) ''device busy''"]
    has_value_spec [where ?'a = int, of "''device busy''" "-1 :: int" "failMsg ''device busy'' :: int Result"]
  by (simp add: has_value_def fail_def failMsg_def)

end
